theory Spec2Isabelle
  imports Main "HOL-Library.Word"
begin

section \<open>Converters between Go values and protobuf values (internal/impl/convert.go)\<close>

text \<open>
  The file \<^verbatim>\<open>convert.go\<close> builds, for a Go type and a protobuf field descriptor, a
  \<^verbatim>\<open>Converter\<close>: an object that translates \<^verbatim>\<open>reflect.Value\<close>s into
  \<^verbatim>\<open>protoreflect.Value\<close>s and back. The embedding below keeps the structure of the
  source: one constructor per converter struct, one function per method, and a panic is
  the left injection of a sum type.
\<close>

subsection \<open>The fragment of package reflect that the converters use\<close>

text \<open>
  Package \<^verbatim>\<open>reflect\<close> belongs to the Go standard library and package
  \<^verbatim>\<open>protoreflect\<close> to another directory of the module. The types and functions of
  this subsection and the next three follow the documentation of these packages; the
  converters of \<^verbatim>\<open>convert.go\<close> start at the subsection on the converter structs.
\<close>

text \<open>\<^verbatim>\<open>reflect.Kind\<close>; the kind \<^verbatim>\<open>reflect.Int\<close> is written \<open>IntKind\<close>.\<close>

datatype go_kind =
  Invalid | Bool | IntKind | Int8 | Int16 | Int32 | Int64
  | Uint | Uint8 | Uint16 | Uint32 | Uint64 | Uintptr
  | Float32 | Float64 | Complex64 | Complex128
  | Array | Chan | Func | Interface | Map | Ptr | Slice | String | Struct | UnsafePointer

text \<open>
  A \<^verbatim>\<open>reflect.Type\<close>. Two types are equal exactly when they are the same Go type.
  \<open>Basic k\<close> is the predeclared type of a basic kind (\<^verbatim>\<open>bool\<close>, \<^verbatim>\<open>int32\<close>,
  \<^verbatim>\<open>string\<close>, ...), \<open>Named n u\<close> a defined type with name \<open>n\<close> and underlying
  type \<open>u\<close>, and \<open>Composite k n\<close> any other type of kind \<open>k\<close> (array, channel, function,
  interface, map), of which only the kind and the printed form \<open>n\<close> are kept.
\<close>

datatype go_type =
  Basic go_kind
  | Named string go_type
  | SliceOf go_type
  | PtrTo go_type
  | StructOf "(string \<times> go_type) list"
  | Composite go_kind string

type_synonym byte = "8 word"
type_synonym int32 = "32 word"
type_synonym int64 = "64 word"
type_synonym uint32 = "32 word"
type_synonym uint64 = "64 word"

text \<open>Floating-point numbers are kept as their IEEE 754 bit patterns.\<close>

type_synonym float32 = "32 word"
type_synonym float64 = "64 word"

text \<open>
  What a \<^verbatim>\<open>reflect.Value\<close> holds. Strings are byte sequences; a byte slice is
  \<open>None\<close> when it is \<^verbatim>\<open>nil\<close> and \<open>Some bs\<close> when it is allocated (also when empty);
  a pointer is \<open>None\<close> when \<^verbatim>\<open>nil\<close> and an address of the heap otherwise.
  \<open>VOther\<close> stands for the data of every kind that no converter reads.
\<close>

datatype payload =
  VBool bool
  | VInt32 int32
  | VInt64 int64
  | VUint32 uint32
  | VUint64 uint64
  | VFloat32 float32
  | VFloat64 float64
  | VString "byte list"
  | VBytes "byte list option"
  | VPtr "nat option"
  | VStruct "payload list"
  | VOther

text \<open>
  A \<^verbatim>\<open>reflect.Value\<close>: the zero Value, or a type, the data, and the address the
  value lives at when it is addressable (\<^verbatim>\<open>CanAddr\<close>).
\<close>

datatype go_value =
  NoValue
  | Val go_type payload "nat option"

text \<open>The heap: cell \<open>a\<close> holds what the pointer with address \<open>a\<close> points to.\<close>

type_synonym heap = "payload list"

text \<open>
  A \<^verbatim>\<open>protoreflect.Message\<close>, as far as a converter observes it: the result of
  \<^verbatim>\<open>protoUnwrap\<close> when the message implements \<^verbatim>\<open>unwrapper\<close>, and the result of
  its method \<^verbatim>\<open>Interface\<close>, each as \<^verbatim>\<open>reflect.ValueOf\<close> sees it.
\<close>

datatype message =
  Message (Message_protoUnwrap: "go_value option") (Message_Interface: go_value)

text \<open>
  A \<^verbatim>\<open>protoreflect.Value\<close>, named by the function that builds it. \<open>NilValue\<close> is
  the zero Value; lists and maps are handles that no converter of this file inspects.
\<close>

datatype pb_value =
  NilValue
  | ValueOfBool bool
  | ValueOfInt32 int32
  | ValueOfInt64 int64
  | ValueOfUint32 uint32
  | ValueOfUint64 uint64
  | ValueOfFloat32 float32
  | ValueOfFloat64 float64
  | ValueOfString "byte list"
  | ValueOfBytes "byte list option"
  | ValueOfEnum int32
  | ValueOfMessage message
  | ValueOfList nat
  | ValueOfMap nat

text \<open>
  Every way an operation can abort. The first two are the panics of \<^verbatim>\<open>convert.go\<close>
  itself, with the arguments of their format strings:
  \<^verbatim>\<open>"invalid Go type %v for field %v"\<close> and \<^verbatim>\<open>"invalid type: got %v, want %v"\<close>.
  The others are raised by the libraries and the runtime: \<open>ValueError m k\<close> is
  \<^verbatim>\<open>reflect.ValueError\<close> of method \<open>m\<close> on kind \<open>k\<close>, \<open>ConvertPanic\<close> and
  \<open>Unaddressable\<close> the panics of \<^verbatim>\<open>Value.Convert\<close> and \<^verbatim>\<open>Value.Addr\<close>,
  \<open>TypeMismatch\<close> the panic of a typed accessor of \<^verbatim>\<open>protoreflect.Value\<close>,
  \<open>InterfaceConversion\<close> a failed type assertion and \<open>IndexOutOfRange\<close> a failed
  index. \<open>NotModelled\<close> marks a call
  that lies outside the fragment of \<^verbatim>\<open>reflect\<close> embedded here (for instance a
  conversion between integer widths); no converter built by the factory reaches it on a
  well-formed value.
\<close>

datatype panic =
  InvalidGoType go_type string
  | InvalidType go_type go_type
  | ValueError string go_kind
  | ConvertPanic go_type go_type
  | Unaddressable
  | TypeMismatch pb_value string
  | InterfaceConversion pb_value string
  | IndexOutOfRange
  | NotModelled string

type_synonym 'a result = "panic + 'a"

definition bind :: "'a result \<Rightarrow> ('a \<Rightarrow> 'b result) \<Rightarrow> 'b result" where
  "bind m f = (case m of Inl e \<Rightarrow> Inl e | Inr x \<Rightarrow> f x)"

text \<open>
  The parts of the Go runtime and of the message-reflection system that the converters
  call and that are defined elsewhere: the two floating-point conversions of the
  language, whether a type implements \<^verbatim>\<open>protoreflect.ProtoMessage\<close>, the method
  \<^verbatim>\<open>ProtoReflect\<close> of such a type, and \<^verbatim>\<open>legacyWrapMessage\<close>.
\<close>

record runtime =
  to_float64 :: "float32 \<Rightarrow> float64"
  to_float32 :: "float64 \<Rightarrow> float32"
  implementsProtoMessage :: "go_type \<Rightarrow> bool"
  ProtoReflect :: "go_value \<Rightarrow> message"
  legacyWrapMessage :: "go_value \<Rightarrow> message"

fun Type_Kind :: "go_type \<Rightarrow> go_kind" where
  "Type_Kind (Basic k) = k"
| "Type_Kind (Named n u) = Type_Kind u"
| "Type_Kind (SliceOf e) = Slice"
| "Type_Kind (PtrTo e) = Ptr"
| "Type_Kind (StructOf fs) = Struct"
| "Type_Kind (Composite k n) = k"

text \<open>\<^verbatim>\<open>Type.Elem\<close> panics unless the kind is Array, Chan, Map, Ptr or Slice.\<close>

fun Type_Elem :: "go_type \<Rightarrow> go_type result" where
  "Type_Elem (SliceOf e) = Inr e"
| "Type_Elem (PtrTo e) = Inr e"
| "Type_Elem (Named n u) = Type_Elem u"
| "Type_Elem (Composite k n) =
     (if k \<in> {Array, Chan, Map, Ptr, Slice} then Inl (NotModelled ''Type.Elem'')
      else Inl (ValueError ''reflect.Type.Elem'' k))"
| "Type_Elem (Basic k) = Inl (ValueError ''reflect.Type.Elem'' k)"
| "Type_Elem (StructOf fs) = Inl (ValueError ''reflect.Type.Elem'' Struct)"

definition boolType :: go_type where "boolType = Basic Bool"
definition int32Type :: go_type where "int32Type = Basic Int32"
definition int64Type :: go_type where "int64Type = Basic Int64"
definition uint32Type :: go_type where "uint32Type = Basic Uint32"
definition uint64Type :: go_type where "uint64Type = Basic Uint64"
definition float32Type :: go_type where "float32Type = Basic Float32"
definition float64Type :: go_type where "float64Type = Basic Float64"
definition stringType :: go_type where "stringType = Basic String"
definition byteType :: go_type where "byteType = Basic Uint8"
definition bytesType :: go_type where "bytesType = SliceOf (Basic Uint8)"

text \<open>The type \<^verbatim>\<open>protoreflect.EnumNumber\<close>, a defined \<^verbatim>\<open>int32\<close>.\<close>

definition EnumNumberType :: go_type where
  "EnumNumberType = Named ''protoreflect.EnumNumber'' (Basic Int32)"

text \<open>The zero value of a type, as \<^verbatim>\<open>reflect.Zero\<close> and \<^verbatim>\<open>reflect.New\<close> produce it.\<close>

fun zero_payload :: "go_type \<Rightarrow> payload" where
  "zero_payload (Basic k) =
     (if k = Bool then VBool False
      else if k = Int32 then VInt32 0
      else if k = Int64 then VInt64 0
      else if k = Uint32 then VUint32 0
      else if k = Uint64 then VUint64 0
      else if k = Float32 then VFloat32 0
      else if k = Float64 then VFloat64 0
      else if k = String then VString []
      else VOther)"
| "zero_payload (Named n u) = zero_payload u"
| "zero_payload (SliceOf e) = (if e = Basic Uint8 then VBytes None else VOther)"
| "zero_payload (PtrTo e) = VPtr None"
| "zero_payload (StructOf fs) = VStruct (map (\<lambda>f. zero_payload (snd f)) fs)"
| "zero_payload (Composite k n) = VOther"



subsection \<open>Methods of \<^verbatim>\<open>reflect.Value\<close>\<close>

fun Value_IsValid :: "go_value \<Rightarrow> bool" where
  "Value_IsValid NoValue = False"
| "Value_IsValid (Val t p a) = True"

fun Value_Type :: "go_value \<Rightarrow> go_type result" where
  "Value_Type NoValue = Inl (ValueError ''reflect.Value.Type'' Invalid)"
| "Value_Type (Val t p a) = Inr t"

fun Value_kind :: "go_value \<Rightarrow> go_kind" where
  "Value_kind NoValue = Invalid"
| "Value_kind (Val t p a) = Type_Kind t"

fun Value_payload :: "go_value \<Rightarrow> payload option" where
  "Value_payload NoValue = None"
| "Value_payload (Val t p a) = Some p"

definition Value_Bool :: "go_value \<Rightarrow> bool result" where
  "Value_Bool v =
     (if Value_kind v \<noteq> Bool then Inl (ValueError ''reflect.Value.Bool'' (Value_kind v))
      else case Value_payload v of
             Some (VBool b) \<Rightarrow> Inr b
           | _ \<Rightarrow> Inl (NotModelled ''Value.Bool''))"

text \<open>\<^verbatim>\<open>Value.Int\<close> returns an \<^verbatim>\<open>int64\<close>: a narrower integer is sign-extended.\<close>

definition Value_Int :: "go_value \<Rightarrow> int64 result" where
  "Value_Int v =
     (if Value_kind v \<notin> {IntKind, Int8, Int16, Int32, Int64}
      then Inl (ValueError ''reflect.Value.Int'' (Value_kind v))
      else case Value_payload v of
             Some (VInt32 w) \<Rightarrow> Inr (scast w)
           | Some (VInt64 w) \<Rightarrow> Inr w
           | _ \<Rightarrow> Inl (NotModelled ''Value.Int''))"

text \<open>\<^verbatim>\<open>Value.Uint\<close> returns a \<^verbatim>\<open>uint64\<close>: a narrower integer is zero-extended.\<close>

definition Value_Uint :: "go_value \<Rightarrow> uint64 result" where
  "Value_Uint v =
     (if Value_kind v \<notin> {Uint, Uint8, Uint16, Uint32, Uint64, Uintptr}
      then Inl (ValueError ''reflect.Value.Uint'' (Value_kind v))
      else case Value_payload v of
             Some (VUint32 w) \<Rightarrow> Inr (ucast w)
           | Some (VUint64 w) \<Rightarrow> Inr w
           | _ \<Rightarrow> Inl (NotModelled ''Value.Uint''))"

text \<open>\<^verbatim>\<open>Value.Float\<close> returns a \<^verbatim>\<open>float64\<close>: a \<^verbatim>\<open>float32\<close> is widened.\<close>

definition Value_Float :: "runtime \<Rightarrow> go_value \<Rightarrow> float64 result" where
  "Value_Float rt v =
     (if Value_kind v \<notin> {Float32, Float64}
      then Inl (ValueError ''reflect.Value.Float'' (Value_kind v))
      else case Value_payload v of
             Some (VFloat32 x) \<Rightarrow> Inr (to_float64 rt x)
           | Some (VFloat64 x) \<Rightarrow> Inr x
           | _ \<Rightarrow> Inl (NotModelled ''Value.Float''))"

text \<open>
  \<^verbatim>\<open>Value.String\<close> never panics; on a value that is not a string it returns a
  printed form of the type, which is not modelled.
\<close>

definition Value_String :: "go_value \<Rightarrow> byte list result" where
  "Value_String v =
     (case Value_payload v of
        Some (VString s) \<Rightarrow> Inr s
      | _ \<Rightarrow> Inl (NotModelled ''Value.String''))"

definition Value_Len :: "go_value \<Rightarrow> nat result" where
  "Value_Len v =
     (if Value_kind v \<notin> {Array, Chan, Map, Slice, String, Ptr}
      then Inl (ValueError ''reflect.Value.Len'' (Value_kind v))
      else case Value_payload v of
             Some (VString s) \<Rightarrow> Inr (length s)
           | Some (VBytes None) \<Rightarrow> Inr 0
           | Some (VBytes (Some bs)) \<Rightarrow> Inr (length bs)
           | _ \<Rightarrow> Inl (NotModelled ''Value.Len''))"

definition Value_Bytes :: "go_value \<Rightarrow> byte list option result" where
  "Value_Bytes v =
     (if Value_kind v \<notin> {Slice, Array}
      then Inl (ValueError ''reflect.Value.Bytes'' (Value_kind v))
      else case Value_payload v of
             Some (VBytes b) \<Rightarrow> Inr b
           | _ \<Rightarrow> Inl (NotModelled ''Value.Bytes''))"

fun Value_CanAddr :: "go_value \<Rightarrow> bool" where
  "Value_CanAddr (Val t p (Some a)) = True"
| "Value_CanAddr v = False"

fun Value_Addr :: "go_value \<Rightarrow> go_value result" where
  "Value_Addr (Val t p (Some a)) = Inr (Val (PtrTo t) (VPtr (Some a)) None)"
| "Value_Addr v = Inl Unaddressable"

definition Value_IsNil :: "go_value \<Rightarrow> bool result" where
  "Value_IsNil v =
     (if Value_kind v \<notin> {Chan, Func, Map, Ptr, UnsafePointer, Interface, Slice}
      then Inl (ValueError ''reflect.Value.IsNil'' (Value_kind v))
      else case Value_payload v of
             Some (VPtr p) \<Rightarrow> Inr (p = None)
           | Some (VBytes b) \<Rightarrow> Inr (b = None)
           | _ \<Rightarrow> Inl (NotModelled ''Value.IsNil''))"

text \<open>
  \<^verbatim>\<open>Value.Elem\<close> of a pointer: the zero Value for a nil pointer, else the
  addressable value stored in the heap cell the pointer refers to.
\<close>

definition Value_Elem :: "heap \<Rightarrow> go_value \<Rightarrow> go_value result" where
  "Value_Elem h v =
     (if Value_kind v \<notin> {Interface, Ptr}
      then Inl (ValueError ''reflect.Value.Elem'' (Value_kind v))
      else case v of
             Val t (VPtr None) a \<Rightarrow> Inr NoValue
           | Val t (VPtr (Some p)) a \<Rightarrow>
               (if p < length h then bind (Type_Elem t) (\<lambda>e. Inr (Val e (h ! p) (Some p)))
                else Inl (NotModelled ''dangling pointer''))
           | _ \<Rightarrow> Inl (NotModelled ''Value.Elem''))"

definition reflect_Zero :: "go_type \<Rightarrow> go_value" where
  "reflect_Zero t = Val t (zero_payload t) None"

text \<open>\<^verbatim>\<open>reflect.New\<close> allocates a new cell holding the zero value and returns its pointer.\<close>

definition reflect_New :: "go_type \<Rightarrow> heap \<Rightarrow> go_value \<times> heap" where
  "reflect_New t h = (Val (PtrTo t) (VPtr (Some (length h))) None, h @ [zero_payload t])"

text \<open>
  \<^verbatim>\<open>Value.Convert\<close>, for the conversions a converter performs: between two types
  of the same scalar kind and width (the data is kept, also for \<^verbatim>\<open>float32\<close>, which
  \<^verbatim>\<open>reflect\<close> copies without widening), between a string and a byte slice (the
  slice made from a string is allocated, also when the string is empty), and between two
  byte-slice types. A boolean converts to nothing but a boolean or an interface, and
  nothing but a boolean converts to a boolean: there \<^verbatim>\<open>Convert\<close> panics. The result
  of a conversion is never addressable.
\<close>

definition Value_Convert :: "go_value \<Rightarrow> go_type \<Rightarrow> go_value result" where
  "Value_Convert v t =
     (case v of
        NoValue \<Rightarrow> Inl (ValueError ''reflect.Value.Convert'' Invalid)
      | Val s p a \<Rightarrow>
          (let ks = Type_Kind s; kd = Type_Kind t in
           if ks = kd \<and> ks \<in> {Bool, Int32, Int64, Uint32, Uint64, Float32, Float64, String}
           then Inr (Val t p None)
           else if ks = String \<and> kd = Slice \<and> Type_Elem t = Inr byteType
           then (case p of
                   VString bs \<Rightarrow> Inr (Val t (VBytes (Some bs)) None)
                 | _ \<Rightarrow> Inl (NotModelled ''Value.Convert''))
           else if ks = Slice \<and> kd = String \<and> Type_Elem s = Inr byteType
           then (case p of
                   VBytes None \<Rightarrow> Inr (Val t (VString []) None)
                 | VBytes (Some bs) \<Rightarrow> Inr (Val t (VString bs) None)
                 | _ \<Rightarrow> Inl (NotModelled ''Value.Convert''))
           else if ks = Slice \<and> kd = Slice \<and> Type_Elem s = Inr byteType
                   \<and> Type_Elem t = Inr byteType
           then Inr (Val t p None)
           else if (ks = Bool \<and> kd \<notin> {Bool, Interface}) \<or> (kd = Bool \<and> ks \<noteq> Bool)
           then Inl (ConvertPanic s t)
           else Inl (NotModelled ''Value.Convert'')))"

subsection \<open>Accessors of \<^verbatim>\<open>protoreflect.Value\<close>\<close>

text \<open>
  Each typed accessor panics when the value does not carry the matching type, as the
  package documents (\<^verbatim>\<open>Message returns v as a Message and panics if the type is not a
  Message\<close>, and likewise for the others); only \<^verbatim>\<open>String\<close> never panics, as the
  comment in \<^verbatim>\<open>stringConverter.GoValueOf\<close> recalls. \<^verbatim>\<open>Int\<close> accepts both signed
  widths, \<^verbatim>\<open>Uint\<close> both unsigned widths and \<^verbatim>\<open>Float\<close> both floating-point
  widths, widening the narrower one.
\<close>

definition PB_Bool :: "pb_value \<Rightarrow> bool result" where
  "PB_Bool v = (case v of ValueOfBool b \<Rightarrow> Inr b | _ \<Rightarrow> Inl (TypeMismatch v ''bool''))"

definition PB_Int :: "pb_value \<Rightarrow> int64 result" where
  "PB_Int v =
     (case v of
        ValueOfInt32 w \<Rightarrow> Inr (scast w)
      | ValueOfInt64 w \<Rightarrow> Inr w
      | _ \<Rightarrow> Inl (TypeMismatch v ''int''))"

definition PB_Uint :: "pb_value \<Rightarrow> uint64 result" where
  "PB_Uint v =
     (case v of
        ValueOfUint32 w \<Rightarrow> Inr (ucast w)
      | ValueOfUint64 w \<Rightarrow> Inr w
      | _ \<Rightarrow> Inl (TypeMismatch v ''uint''))"

definition PB_Float :: "runtime \<Rightarrow> pb_value \<Rightarrow> float64 result" where
  "PB_Float rt v =
     (case v of
        ValueOfFloat32 x \<Rightarrow> Inr (to_float64 rt x)
      | ValueOfFloat64 x \<Rightarrow> Inr x
      | _ \<Rightarrow> Inl (TypeMismatch v ''float''))"

definition PB_Bytes :: "pb_value \<Rightarrow> byte list option result" where
  "PB_Bytes v = (case v of ValueOfBytes b \<Rightarrow> Inr b | _ \<Rightarrow> Inl (TypeMismatch v ''bytes''))"

definition PB_Enum :: "pb_value \<Rightarrow> int32 result" where
  "PB_Enum v = (case v of ValueOfEnum n \<Rightarrow> Inr n | _ \<Rightarrow> Inl (TypeMismatch v ''enum''))"

definition PB_Message :: "pb_value \<Rightarrow> message result" where
  "PB_Message v =
     (case v of ValueOfMessage m \<Rightarrow> Inr m | _ \<Rightarrow> Inl (TypeMismatch v ''message''))"

subsection \<open>Field descriptors\<close>

datatype pb_kind =
  BoolKind | EnumKind | Int32Kind | Sint32Kind | Uint32Kind | Int64Kind | Sint64Kind
  | Uint64Kind | Sfixed32Kind | Fixed32Kind | FloatKind | Sfixed64Kind | Fixed64Kind
  | DoubleKind | StringKind | BytesKind | MessageKind | GroupKind | UnknownKind

datatype cardinality = Optional | Required | Repeated

text \<open>
  A \<^verbatim>\<open>protoreflect.FieldDescriptor\<close>, by the results of the methods the factory calls;
  \<open>EnumValues\<close> lists the numbers of \<^verbatim>\<open>fd.Enum().Values()\<close> in declaration order.
  \<open>UnknownKind\<close> is any value of \<^verbatim>\<open>protoreflect.Kind\<close> other than the named ones.
\<close>

record field_descriptor =
  Kind :: pb_kind
  Cardinality :: cardinality
  Default :: pb_value
  IsList :: bool
  IsMap :: bool
  FullName :: string
  EnumValues :: "int32 list"

subsection \<open>The converter structs and their methods\<close>

text \<open>
  One constructor per struct of the source, with its fields \<^verbatim>\<open>goType\<close> and
  \<^verbatim>\<open>def\<close>; \<^verbatim>\<open>messageConverter\<close> has no \<^verbatim>\<open>def\<close>.
\<close>

datatype converter =
  boolConverter (goType: go_type) (def: pb_value)
  | int32Converter (goType: go_type) (def: pb_value)
  | int64Converter (goType: go_type) (def: pb_value)
  | uint32Converter (goType: go_type) (def: pb_value)
  | uint64Converter (goType: go_type) (def: pb_value)
  | float32Converter (goType: go_type) (def: pb_value)
  | float64Converter (goType: go_type) (def: pb_value)
  | stringConverter (goType: go_type) (def: pb_value)
  | bytesConverter (goType: go_type) (def: pb_value)
  | enumConverter (goType: go_type) (def: pb_value)
  | messageConverter (goType: go_type)

text \<open>
  The methods \<^verbatim>\<open>PBValueOf\<close>. Each first compares \<^verbatim>\<open>v.Type()\<close> with
  \<^verbatim>\<open>c.goType\<close>; the Go conversions \<^verbatim>\<open>int32(x)\<close> and \<^verbatim>\<open>uint32(x)\<close> of a 64-bit
  integer keep the low 32 bits.
\<close>

definition boolConverter_PBValueOf :: "go_type \<Rightarrow> go_value \<Rightarrow> pb_value result" where
  "boolConverter_PBValueOf gt v =
     bind (Value_Type v) (\<lambda>t.
       if t \<noteq> gt then Inl (InvalidType t gt)
       else bind (Value_Bool v) (\<lambda>b. Inr (ValueOfBool b)))"

definition int32Converter_PBValueOf :: "go_type \<Rightarrow> go_value \<Rightarrow> pb_value result" where
  "int32Converter_PBValueOf gt v =
     bind (Value_Type v) (\<lambda>t.
       if t \<noteq> gt then Inl (InvalidType t gt)
       else bind (Value_Int v) (\<lambda>i. Inr (ValueOfInt32 (ucast i))))"

definition int64Converter_PBValueOf :: "go_type \<Rightarrow> go_value \<Rightarrow> pb_value result" where
  "int64Converter_PBValueOf gt v =
     bind (Value_Type v) (\<lambda>t.
       if t \<noteq> gt then Inl (InvalidType t gt)
       else bind (Value_Int v) (\<lambda>i. Inr (ValueOfInt64 i)))"

definition uint32Converter_PBValueOf :: "go_type \<Rightarrow> go_value \<Rightarrow> pb_value result" where
  "uint32Converter_PBValueOf gt v =
     bind (Value_Type v) (\<lambda>t.
       if t \<noteq> gt then Inl (InvalidType t gt)
       else bind (Value_Uint v) (\<lambda>i. Inr (ValueOfUint32 (ucast i))))"

definition uint64Converter_PBValueOf :: "go_type \<Rightarrow> go_value \<Rightarrow> pb_value result" where
  "uint64Converter_PBValueOf gt v =
     bind (Value_Type v) (\<lambda>t.
       if t \<noteq> gt then Inl (InvalidType t gt)
       else bind (Value_Uint v) (\<lambda>i. Inr (ValueOfUint64 i)))"

definition float32Converter_PBValueOf ::
  "runtime \<Rightarrow> go_type \<Rightarrow> go_value \<Rightarrow> pb_value result" where
  "float32Converter_PBValueOf rt gt v =
     bind (Value_Type v) (\<lambda>t.
       if t \<noteq> gt then Inl (InvalidType t gt)
       else bind (Value_Float rt v) (\<lambda>f. Inr (ValueOfFloat32 (to_float32 rt f))))"

definition float64Converter_PBValueOf ::
  "runtime \<Rightarrow> go_type \<Rightarrow> go_value \<Rightarrow> pb_value result" where
  "float64Converter_PBValueOf rt gt v =
     bind (Value_Type v) (\<lambda>t.
       if t \<noteq> gt then Inl (InvalidType t gt)
       else bind (Value_Float rt v) (\<lambda>f. Inr (ValueOfFloat64 f)))"

definition stringConverter_PBValueOf :: "go_type \<Rightarrow> go_value \<Rightarrow> pb_value result" where
  "stringConverter_PBValueOf gt v =
     bind (Value_Type v) (\<lambda>t.
       if t \<noteq> gt then Inl (InvalidType t gt)
       else bind (Value_Convert v stringType) (\<lambda>c.
              bind (Value_String c) (\<lambda>s. Inr (ValueOfString s))))"

definition bytesConverter_PBValueOf :: "go_type \<Rightarrow> go_value \<Rightarrow> pb_value result" where
  "bytesConverter_PBValueOf gt v =
     bind (Value_Type v) (\<lambda>t.
       if t \<noteq> gt then Inl (InvalidType t gt)
       else bind (if Type_Kind gt = String then bind (Value_Len v) (\<lambda>n. Inr (n = 0))
                  else Inr False) (\<lambda>empty_string.
              if empty_string then Inr (ValueOfBytes None)
              else bind (Value_Convert v bytesType) (\<lambda>c.
                     bind (Value_Bytes c) (\<lambda>b. Inr (ValueOfBytes b)))))"

definition enumConverter_PBValueOf :: "go_type \<Rightarrow> go_value \<Rightarrow> pb_value result" where
  "enumConverter_PBValueOf gt v =
     bind (Value_Type v) (\<lambda>t.
       if t \<noteq> gt then Inl (InvalidType t gt)
       else bind (Value_Int v) (\<lambda>i. Inr (ValueOfEnum (ucast i))))"

definition isNonPointer :: "go_type \<Rightarrow> bool" where
  "isNonPointer gt = (Type_Kind gt \<noteq> Ptr)"

text \<open>
  The last four lines of \<^verbatim>\<open>messageConverter.PBValueOf\<close>: a value whose type
  implements \<^verbatim>\<open>protoreflect.ProtoMessage\<close> is wrapped by its own
  \<^verbatim>\<open>ProtoReflect\<close>, any other by \<^verbatim>\<open>legacyWrapMessage\<close>. (That
  \<^verbatim>\<open>v.Interface()\<close> panics on a value read from an unexported struct field is not
  modelled.)
\<close>

definition wrapMessage :: "runtime \<Rightarrow> go_value \<Rightarrow> pb_value result" where
  "wrapMessage rt v =
     bind (Value_Type v) (\<lambda>t.
       if implementsProtoMessage rt t then Inr (ValueOfMessage (ProtoReflect rt v))
       else Inr (ValueOfMessage (legacyWrapMessage rt v)))"

definition messageConverter_PBValueOf ::
  "runtime \<Rightarrow> go_type \<Rightarrow> go_value \<Rightarrow> pb_value result" where
  "messageConverter_PBValueOf rt gt v =
     bind (Value_Type v) (\<lambda>t.
       if t \<noteq> gt then Inl (InvalidType t gt)
       else bind (if isNonPointer gt
                  then (if Value_CanAddr v then Value_Addr v
                        else Inr (reflect_Zero (PtrTo t)))
                  else Inr v) (wrapMessage rt))"

fun PBValueOf :: "runtime \<Rightarrow> converter \<Rightarrow> go_value \<Rightarrow> pb_value result" where
  "PBValueOf rt (boolConverter gt d) v = boolConverter_PBValueOf gt v"
| "PBValueOf rt (int32Converter gt d) v = int32Converter_PBValueOf gt v"
| "PBValueOf rt (int64Converter gt d) v = int64Converter_PBValueOf gt v"
| "PBValueOf rt (uint32Converter gt d) v = uint32Converter_PBValueOf gt v"
| "PBValueOf rt (uint64Converter gt d) v = uint64Converter_PBValueOf gt v"
| "PBValueOf rt (float32Converter gt d) v = float32Converter_PBValueOf rt gt v"
| "PBValueOf rt (float64Converter gt d) v = float64Converter_PBValueOf rt gt v"
| "PBValueOf rt (stringConverter gt d) v = stringConverter_PBValueOf gt v"
| "PBValueOf rt (bytesConverter gt d) v = bytesConverter_PBValueOf gt v"
| "PBValueOf rt (enumConverter gt d) v = enumConverter_PBValueOf gt v"
| "PBValueOf rt (messageConverter gt) v = messageConverter_PBValueOf rt gt v"

text \<open>
  The methods \<^verbatim>\<open>GoValueOf\<close>: \<^verbatim>\<open>reflect.ValueOf\<close> of the extracted primitive,
  converted to \<^verbatim>\<open>c.goType\<close>. The string converter asserts the dynamic type of
  \<^verbatim>\<open>v.Interface()\<close> instead of calling \<^verbatim>\<open>v.String()\<close>.
\<close>

definition boolConverter_GoValueOf :: "go_type \<Rightarrow> pb_value \<Rightarrow> go_value result" where
  "boolConverter_GoValueOf gt v =
     bind (PB_Bool v) (\<lambda>b. Value_Convert (Val boolType (VBool b) None) gt)"

definition int32Converter_GoValueOf :: "go_type \<Rightarrow> pb_value \<Rightarrow> go_value result" where
  "int32Converter_GoValueOf gt v =
     bind (PB_Int v) (\<lambda>i. Value_Convert (Val int32Type (VInt32 (ucast i)) None) gt)"

definition int64Converter_GoValueOf :: "go_type \<Rightarrow> pb_value \<Rightarrow> go_value result" where
  "int64Converter_GoValueOf gt v =
     bind (PB_Int v) (\<lambda>i. Value_Convert (Val int64Type (VInt64 i) None) gt)"

definition uint32Converter_GoValueOf :: "go_type \<Rightarrow> pb_value \<Rightarrow> go_value result" where
  "uint32Converter_GoValueOf gt v =
     bind (PB_Uint v) (\<lambda>i. Value_Convert (Val uint32Type (VUint32 (ucast i)) None) gt)"

definition uint64Converter_GoValueOf :: "go_type \<Rightarrow> pb_value \<Rightarrow> go_value result" where
  "uint64Converter_GoValueOf gt v =
     bind (PB_Uint v) (\<lambda>i. Value_Convert (Val uint64Type (VUint64 i) None) gt)"

definition float32Converter_GoValueOf ::
  "runtime \<Rightarrow> go_type \<Rightarrow> pb_value \<Rightarrow> go_value result" where
  "float32Converter_GoValueOf rt gt v =
     bind (PB_Float rt v) (\<lambda>f.
       Value_Convert (Val float32Type (VFloat32 (to_float32 rt f)) None) gt)"

definition float64Converter_GoValueOf ::
  "runtime \<Rightarrow> go_type \<Rightarrow> pb_value \<Rightarrow> go_value result" where
  "float64Converter_GoValueOf rt gt v =
     bind (PB_Float rt v) (\<lambda>f. Value_Convert (Val float64Type (VFloat64 f) None) gt)"

definition stringConverter_GoValueOf :: "go_type \<Rightarrow> pb_value \<Rightarrow> go_value result" where
  "stringConverter_GoValueOf gt v =
     (case v of
        ValueOfString s \<Rightarrow>
          (if Type_Kind gt = Slice \<and> s = [] then Inr (reflect_Zero gt)
           else Value_Convert (Val stringType (VString s) None) gt)
      | _ \<Rightarrow> Inl (InterfaceConversion v ''string''))"

definition bytesConverter_GoValueOf :: "go_type \<Rightarrow> pb_value \<Rightarrow> go_value result" where
  "bytesConverter_GoValueOf gt v =
     bind (PB_Bytes v) (\<lambda>b. Value_Convert (Val bytesType (VBytes b) None) gt)"

definition enumConverter_GoValueOf :: "go_type \<Rightarrow> pb_value \<Rightarrow> go_value result" where
  "enumConverter_GoValueOf gt v =
     bind (PB_Enum v) (\<lambda>n. Value_Convert (Val EnumNumberType (VInt32 n) None) gt)"

text \<open>
  The native value behind a message: \<^verbatim>\<open>protoUnwrap()\<close> when the message implements
  \<^verbatim>\<open>unwrapper\<close>, else \<^verbatim>\<open>m.Interface()\<close>.
\<close>

definition message_rv :: "message \<Rightarrow> go_value" where
  "message_rv m =
     (case Message_protoUnwrap m of Some u \<Rightarrow> u | None \<Rightarrow> Message_Interface m)"

definition messageConverter_GoValueOf ::
  "heap \<Rightarrow> go_type \<Rightarrow> pb_value \<Rightarrow> go_value result" where
  "messageConverter_GoValueOf h gt v =
     bind (PB_Message v) (\<lambda>m.
       bind (if isNonPointer gt
             then bind (Value_Type (message_rv m)) (\<lambda>t.
                    if t \<noteq> PtrTo gt then Inl (InvalidType t (PtrTo gt))
                    else bind (Value_IsNil (message_rv m)) (\<lambda>nil.
                           if \<not> nil then Value_Elem h (message_rv m)
                           else bind (Type_Elem t) (\<lambda>e. Inr (reflect_Zero e))))
             else Inr (message_rv m)) (\<lambda>rv.
         bind (Value_Type rv) (\<lambda>t.
           if t \<noteq> gt then Inl (InvalidType t gt) else Inr rv)))"

fun GoValueOf :: "runtime \<Rightarrow> heap \<Rightarrow> converter \<Rightarrow> pb_value \<Rightarrow> go_value result" where
  "GoValueOf rt h (boolConverter gt d) v = boolConverter_GoValueOf gt v"
| "GoValueOf rt h (int32Converter gt d) v = int32Converter_GoValueOf gt v"
| "GoValueOf rt h (int64Converter gt d) v = int64Converter_GoValueOf gt v"
| "GoValueOf rt h (uint32Converter gt d) v = uint32Converter_GoValueOf gt v"
| "GoValueOf rt h (uint64Converter gt d) v = uint64Converter_GoValueOf gt v"
| "GoValueOf rt h (float32Converter gt d) v = float32Converter_GoValueOf rt gt v"
| "GoValueOf rt h (float64Converter gt d) v = float64Converter_GoValueOf rt gt v"
| "GoValueOf rt h (stringConverter gt d) v = stringConverter_GoValueOf gt v"
| "GoValueOf rt h (bytesConverter gt d) v = bytesConverter_GoValueOf gt v"
| "GoValueOf rt h (enumConverter gt d) v = enumConverter_GoValueOf gt v"
| "GoValueOf rt h (messageConverter gt) v = messageConverter_GoValueOf h gt v"

text \<open>
  The methods \<^verbatim>\<open>IsValidPB\<close>. Ten of them test the dynamic type of
  \<^verbatim>\<open>v.Interface()\<close> with a comma-ok assertion, which cannot panic; the message
  converter calls \<^verbatim>\<open>v.Message()\<close> and \<^verbatim>\<open>rv.Type()\<close>.
\<close>

definition messageConverter_IsValidPB :: "go_type \<Rightarrow> pb_value \<Rightarrow> bool result" where
  "messageConverter_IsValidPB gt v =
     bind (PB_Message v) (\<lambda>m.
       bind (Value_Type (message_rv m)) (\<lambda>t.
         if isNonPointer gt then Inr (t = PtrTo gt) else Inr (t = gt)))"

fun IsValidPB :: "converter \<Rightarrow> pb_value \<Rightarrow> bool result" where
  "IsValidPB (boolConverter gt d) v = Inr (case v of ValueOfBool x \<Rightarrow> True | _ \<Rightarrow> False)"
| "IsValidPB (int32Converter gt d) v = Inr (case v of ValueOfInt32 x \<Rightarrow> True | _ \<Rightarrow> False)"
| "IsValidPB (int64Converter gt d) v = Inr (case v of ValueOfInt64 x \<Rightarrow> True | _ \<Rightarrow> False)"
| "IsValidPB (uint32Converter gt d) v =
     Inr (case v of ValueOfUint32 x \<Rightarrow> True | _ \<Rightarrow> False)"
| "IsValidPB (uint64Converter gt d) v =
     Inr (case v of ValueOfUint64 x \<Rightarrow> True | _ \<Rightarrow> False)"
| "IsValidPB (float32Converter gt d) v =
     Inr (case v of ValueOfFloat32 x \<Rightarrow> True | _ \<Rightarrow> False)"
| "IsValidPB (float64Converter gt d) v =
     Inr (case v of ValueOfFloat64 x \<Rightarrow> True | _ \<Rightarrow> False)"
| "IsValidPB (stringConverter gt d) v =
     Inr (case v of ValueOfString x \<Rightarrow> True | _ \<Rightarrow> False)"
| "IsValidPB (bytesConverter gt d) v = Inr (case v of ValueOfBytes x \<Rightarrow> True | _ \<Rightarrow> False)"
| "IsValidPB (enumConverter gt d) v = Inr (case v of ValueOfEnum x \<Rightarrow> True | _ \<Rightarrow> False)"
| "IsValidPB (messageConverter gt) v = messageConverter_IsValidPB gt v"

text \<open>
  \<^verbatim>\<open>IsValidGo\<close> has the same body in all eleven structs:
  \<^verbatim>\<open>v.IsValid() && v.Type() == c.goType\<close>, where \<^verbatim>\<open>&&\<close> skips
  \<^verbatim>\<open>v.Type()\<close> on the zero Value.
\<close>

definition IsValidGo :: "converter \<Rightarrow> go_value \<Rightarrow> bool result" where
  "IsValidGo c v =
     (if \<not> Value_IsValid v then Inr False
      else bind (Value_Type v) (\<lambda>t. Inr (t = goType c)))"

text \<open>
  \<^verbatim>\<open>New\<close> and \<^verbatim>\<open>Zero\<close>. The ten structs with a \<^verbatim>\<open>def\<close> field return it from
  both. The message converter allocates in \<^verbatim>\<open>New\<close> (so \<open>New\<close> takes the heap and
  returns the new one) and converts \<^verbatim>\<open>reflect.Zero(c.goType)\<close> in \<^verbatim>\<open>Zero\<close>.
\<close>

definition messageConverter_New ::
  "runtime \<Rightarrow> go_type \<Rightarrow> heap \<Rightarrow> (pb_value \<times> heap) result" where
  "messageConverter_New rt gt h =
     (if isNonPointer gt
      then (case reflect_New gt h of (p, h') \<Rightarrow>
              bind (Value_Elem h' p) (\<lambda>e.
                bind (messageConverter_PBValueOf rt gt e) (\<lambda>r. Inr (r, h'))))
      else bind (Type_Elem gt) (\<lambda>e.
             case reflect_New e h of (p, h') \<Rightarrow>
               bind (messageConverter_PBValueOf rt gt p) (\<lambda>r. Inr (r, h'))))"

definition messageConverter_Zero :: "runtime \<Rightarrow> go_type \<Rightarrow> pb_value result" where
  "messageConverter_Zero rt gt = messageConverter_PBValueOf rt gt (reflect_Zero gt)"

fun New :: "runtime \<Rightarrow> converter \<Rightarrow> heap \<Rightarrow> (pb_value \<times> heap) result" where
  "New rt (messageConverter gt) h = messageConverter_New rt gt h"
| "New rt c h = Inr (def c, h)"

fun Zero :: "runtime \<Rightarrow> converter \<Rightarrow> pb_value result" where
  "Zero rt (messageConverter gt) = messageConverter_Zero rt gt"
| "Zero rt c = Inr (def c)"

subsection \<open>The factory\<close>

definition boolZero :: pb_value where "boolZero = ValueOfBool False"
definition int32Zero :: pb_value where "int32Zero = ValueOfInt32 0"
definition int64Zero :: pb_value where "int64Zero = ValueOfInt64 0"
definition uint32Zero :: pb_value where "uint32Zero = ValueOfUint32 0"
definition uint64Zero :: pb_value where "uint64Zero = ValueOfUint64 0"
definition float32Zero :: pb_value where "float32Zero = ValueOfFloat32 0"
definition float64Zero :: pb_value where "float64Zero = ValueOfFloat64 0"
definition stringZero :: pb_value where "stringZero = ValueOfString []"
definition bytesZero :: pb_value where "bytesZero = ValueOfBytes None"

text \<open>
  Both factory functions are a \<^verbatim>\<open>switch\<close> followed by a \<^verbatim>\<open>panic\<close> statement.
  A \<^verbatim>\<open>switch\<close> either returns from the function or falls through to the statement
  after it.
\<close>

datatype 'a flow = Return 'a | FallThrough

definition defVal :: "field_descriptor \<Rightarrow> pb_value \<Rightarrow> pb_value" where
  "defVal fd zero = (if Cardinality fd = Repeated then zero else Default fd)"

text \<open>\<^verbatim>\<open>fd.Enum().Values().Get(0)\<close> panics when the enum declares no value.\<close>

definition newEnumConverter :: "go_type \<Rightarrow> field_descriptor \<Rightarrow> converter result" where
  "newEnumConverter gt fd =
     (if Cardinality fd = Repeated
      then (case EnumValues fd of
              [] \<Rightarrow> Inl IndexOutOfRange
            | n # ns \<Rightarrow> Inr (enumConverter gt (ValueOfEnum n)))
      else Inr (enumConverter gt (Default fd)))"

definition newMessageConverter :: "go_type \<Rightarrow> converter result" where
  "newMessageConverter gt = Inr (messageConverter gt)"

definition newSingularConverter_switch ::
  "go_type \<Rightarrow> field_descriptor \<Rightarrow> converter result flow" where
  "newSingularConverter_switch t fd =
     (case Kind fd of
        BoolKind \<Rightarrow>
          if Type_Kind t = Bool then Return (Inr (boolConverter t (defVal fd boolZero)))
          else FallThrough
      | Int32Kind \<Rightarrow>
          if Type_Kind t = Int32 then Return (Inr (int32Converter t (defVal fd int32Zero)))
          else FallThrough
      | Sint32Kind \<Rightarrow>
          if Type_Kind t = Int32 then Return (Inr (int32Converter t (defVal fd int32Zero)))
          else FallThrough
      | Sfixed32Kind \<Rightarrow>
          if Type_Kind t = Int32 then Return (Inr (int32Converter t (defVal fd int32Zero)))
          else FallThrough
      | Int64Kind \<Rightarrow>
          if Type_Kind t = Int64 then Return (Inr (int64Converter t (defVal fd int64Zero)))
          else FallThrough
      | Sint64Kind \<Rightarrow>
          if Type_Kind t = Int64 then Return (Inr (int64Converter t (defVal fd int64Zero)))
          else FallThrough
      | Sfixed64Kind \<Rightarrow>
          if Type_Kind t = Int64 then Return (Inr (int64Converter t (defVal fd int64Zero)))
          else FallThrough
      | Uint32Kind \<Rightarrow>
          if Type_Kind t = Uint32 then Return (Inr (uint32Converter t (defVal fd uint32Zero)))
          else FallThrough
      | Fixed32Kind \<Rightarrow>
          if Type_Kind t = Uint32 then Return (Inr (uint32Converter t (defVal fd uint32Zero)))
          else FallThrough
      | Uint64Kind \<Rightarrow>
          if Type_Kind t = Uint64 then Return (Inr (uint64Converter t (defVal fd uint64Zero)))
          else FallThrough
      | Fixed64Kind \<Rightarrow>
          if Type_Kind t = Uint64 then Return (Inr (uint64Converter t (defVal fd uint64Zero)))
          else FallThrough
      | FloatKind \<Rightarrow>
          if Type_Kind t = Float32
          then Return (Inr (float32Converter t (defVal fd float32Zero)))
          else FallThrough
      | DoubleKind \<Rightarrow>
          if Type_Kind t = Float64
          then Return (Inr (float64Converter t (defVal fd float64Zero)))
          else FallThrough
      | StringKind \<Rightarrow>
          if Type_Kind t = String \<or> (Type_Kind t = Slice \<and> Type_Elem t = Inr byteType)
          then Return (Inr (stringConverter t (defVal fd stringZero)))
          else FallThrough
      | BytesKind \<Rightarrow>
          if Type_Kind t = String \<or> (Type_Kind t = Slice \<and> Type_Elem t = Inr byteType)
          then Return (Inr (bytesConverter t (defVal fd bytesZero)))
          else FallThrough
      | EnumKind \<Rightarrow>
          if Type_Kind t = Int32 then Return (newEnumConverter t fd) else FallThrough
      | MessageKind \<Rightarrow> Return (newMessageConverter t)
      | GroupKind \<Rightarrow> Return (newMessageConverter t)
      | UnknownKind \<Rightarrow> FallThrough)"

definition newSingularConverter :: "go_type \<Rightarrow> field_descriptor \<Rightarrow> converter result" where
  "newSingularConverter t fd =
     (case newSingularConverter_switch t fd of
        Return r \<Rightarrow> r
      | FallThrough \<Rightarrow> Inl (InvalidGoType t (FullName fd)))"

text \<open>
  \<^verbatim>\<open>newListConverter\<close> and \<^verbatim>\<open>newMapConverter\<close> are defined in other files of the
  package; \<open>NewConverter\<close> takes them as the parameters \<open>newList\<close> and \<open>newMap\<close>. A
  \<^verbatim>\<open>Converter\<close> is then one of their results or one of the structs above.
\<close>

datatype 'c Converter = Collection 'c | Singular converter

definition NewConverter_switch ::
  "(go_type \<Rightarrow> field_descriptor \<Rightarrow> 'c result) \<Rightarrow> (go_type \<Rightarrow> field_descriptor \<Rightarrow> 'c result)
   \<Rightarrow> go_type \<Rightarrow> field_descriptor \<Rightarrow> 'c Converter result flow" where
  "NewConverter_switch newList newMap t fd =
     (if IsList fd then Return (bind (newList t fd) (\<lambda>c. Inr (Collection c)))
      else if IsMap fd then Return (bind (newMap t fd) (\<lambda>c. Inr (Collection c)))
      else Return (bind (newSingularConverter t fd) (\<lambda>c. Inr (Singular c))))"

definition NewConverter ::
  "(go_type \<Rightarrow> field_descriptor \<Rightarrow> 'c result) \<Rightarrow> (go_type \<Rightarrow> field_descriptor \<Rightarrow> 'c result)
   \<Rightarrow> go_type \<Rightarrow> field_descriptor \<Rightarrow> 'c Converter result" where
  "NewConverter newList newMap t fd =
     (case NewConverter_switch newList newMap t fd of
        Return r \<Rightarrow> r
      | FallThrough \<Rightarrow> Inl (InvalidGoType t (FullName fd)))"

subsection \<open>Vocabulary of the specification\<close>

text \<open>
  The seven scalar converters of the specification (section 4.2), and the one a
  converter is, if any.
\<close>

datatype scalar_kind = SBool | SInt32 | SInt64 | SUint32 | SUint64 | SFloat32 | SFloat64

fun scalar_kind_of :: "converter \<Rightarrow> scalar_kind option" where
  "scalar_kind_of (boolConverter gt d) = Some SBool"
| "scalar_kind_of (int32Converter gt d) = Some SInt32"
| "scalar_kind_of (int64Converter gt d) = Some SInt64"
| "scalar_kind_of (uint32Converter gt d) = Some SUint32"
| "scalar_kind_of (uint64Converter gt d) = Some SUint64"
| "scalar_kind_of (float32Converter gt d) = Some SFloat32"
| "scalar_kind_of (float64Converter gt d) = Some SFloat64"
| "scalar_kind_of c = None"

text \<open>
  The native representations the specification lists for a message or group field
  (table of section 4.1): a pointer to a named struct, or a named struct. Whether the
  pointer type implements the message capability is left out, so the predicate accepts
  every type of the table, and a type it rejects is not in the table.
\<close>

fun named_struct :: "go_type \<Rightarrow> bool" where
  "named_struct (Named n (StructOf fs)) = True"
| "named_struct t = False"

fun message_representation :: "go_type \<Rightarrow> bool" where
  "message_representation (PtrTo e) = named_struct e"
| "message_representation t = named_struct t"

text \<open>
  The zero value of a field kind: the variable of the source (\<^verbatim>\<open>boolZero\<close>, ...,
  \<^verbatim>\<open>bytesZero\<close>) that the factory passes to \<^verbatim>\<open>defVal\<close> for that kind. Enum, message
  and group fields have none.
\<close>

fun zero_of_kind :: "pb_kind \<Rightarrow> pb_value option" where
  "zero_of_kind BoolKind = Some boolZero"
| "zero_of_kind Int32Kind = Some int32Zero"
| "zero_of_kind Sint32Kind = Some int32Zero"
| "zero_of_kind Sfixed32Kind = Some int32Zero"
| "zero_of_kind Int64Kind = Some int64Zero"
| "zero_of_kind Sint64Kind = Some int64Zero"
| "zero_of_kind Sfixed64Kind = Some int64Zero"
| "zero_of_kind Uint32Kind = Some uint32Zero"
| "zero_of_kind Fixed32Kind = Some uint32Zero"
| "zero_of_kind Uint64Kind = Some uint64Zero"
| "zero_of_kind Fixed64Kind = Some uint64Zero"
| "zero_of_kind FloatKind = Some float32Zero"
| "zero_of_kind DoubleKind = Some float64Zero"
| "zero_of_kind StringKind = Some stringZero"
| "zero_of_kind BytesKind = Some bytesZero"
| "zero_of_kind k = None"

text \<open>
  Concrete inputs at which the theorems below are instantiated: a runtime in which no
  type implements \<^verbatim>\<open>ProtoMessage\<close>, both wrappers return a message whose
  \<^verbatim>\<open>Interface\<close> is the wrapped value, and the two floating-point conversions are
  stand-ins that embed a 32-bit pattern into 64 bits and cut it out again (all that is
  used of them is that narrowing undoes widening); the type
  \<^verbatim>\<open>*M\<close> of a generated message \<^verbatim>\<open>type M struct { a int32 }\<close>, and a field
  \<^verbatim>\<open>example.M.f\<close> of a given kind, cardinality and default.
\<close>

abbreviation example_runtime :: runtime where
  "example_runtime \<equiv>
     \<lparr>to_float64 = ucast, to_float32 = ucast, implementsProtoMessage = (\<lambda>t. False),
      ProtoReflect = (\<lambda>v. Message None v), legacyWrapMessage = (\<lambda>v. Message None v)\<rparr>"

abbreviation example_message :: go_type where
  "example_message \<equiv> PtrTo (Named ''M'' (StructOf [(''a'', Basic Int32)]))"

abbreviation example_field :: "pb_kind \<Rightarrow> cardinality \<Rightarrow> pb_value \<Rightarrow> field_descriptor" where
  "example_field k cd d \<equiv>
     \<lparr>Kind = k, Cardinality = cd, Default = d, IsList = False, IsMap = False,
      FullName = ''example.M.f'', EnumValues = [1, 2]\<rparr>"

section \<open>Properties\<close>

subsection \<open>Auxiliary facts\<close>







lemmas factory_defs =
  newSingularConverter_def newSingularConverter_switch_def newEnumConverter_def
  newMessageConverter_def defVal_def

subsection \<open>Round trip of the scalar converters\<close>



subsection \<open>Construction of message converters\<close>

text \<open>
  Claim C2, as the source has it. For a field of kind message or group the singular
  dispatch returns \<^verbatim>\<open>newMessageConverter(t)\<close> at once: it builds a message converter
  holding the supplied native type, whatever that type is, and raises no error at
  construction time. (The comment of \<^verbatim>\<open>NewConverter\<close> says that the matcher
  deliberately accepts more Go types than generated code uses.)
\<close>

theorem message_kind_unchecked:
  assumes "Kind fd = MessageKind \<or> Kind fd = GroupKind"
  shows "newSingularConverter t fd = Inr (messageConverter t)"
  using assms by (auto simp: factory_defs)

theorem message_kind_unchecked_witness:
  "newSingularConverter example_message (example_field GroupKind Optional NilValue)
     = Inr (messageConverter example_message)"
  using message_kind_unchecked
    [of "example_field GroupKind Optional NilValue" example_message]
  by simp

text \<open>
  Claim C2 as stated fails: the type \<^verbatim>\<open>int32\<close> is neither a pointer to a named
  struct nor a named struct, and the factory still builds a converter for a message
  field bound to it.
\<close>

theorem message_kind_mismatch_counterexample:
  "Kind (example_field MessageKind Optional NilValue) = MessageKind
   \<and> \<not> message_representation (Basic Int32)
   \<and> newSingularConverter (Basic Int32) (example_field MessageKind Optional NilValue)
       = Inr (messageConverter (Basic Int32))"
  by (simp add: factory_defs)

subsection \<open>Fatal errors on a mismatch\<close>

text \<open>
  Claim C3. Building a singular converter for a field of kind bool with a native type
  of kind \<^verbatim>\<open>int32\<close> panics with \<^verbatim>\<open>"invalid Go type %v for field %v"\<close>, carrying
  the native type and the full name of the field; the same panic leaves
  \<open>NewConverter\<close> when the field is neither a list nor a map. And \<open>PBValueOf\<close> of a
  string converter built by the factory, applied to a native value of kind bool, panics
  with \<^verbatim>\<open>"invalid type: got %v, want %v"\<close>, carrying the type of the value and the
  converter's type.
\<close>

theorem fatal_on_mismatch:
  "(Kind fd = BoolKind \<and> Type_Kind t = Int32 \<longrightarrow>
      newSingularConverter t fd = Inl (InvalidGoType t (FullName fd))
      \<and> (\<not> IsList fd \<and> \<not> IsMap fd \<longrightarrow>
           NewConverter newList newMap t fd = Inl (InvalidGoType t (FullName fd))))
   \<and> (Kind fd' = StringKind \<and> newSingularConverter t' fd' = Inr c \<and> Type_Kind tv = Bool \<longrightarrow>
        PBValueOf rt c (Val tv p a) = Inl (InvalidType tv t'))"
  by (auto simp: factory_defs NewConverter_def NewConverter_switch_def
      stringConverter_PBValueOf_def bind_def split: if_splits)

theorem fatal_on_mismatch_witness:
  "newSingularConverter (Basic Int32) (example_field BoolKind Optional (ValueOfBool False))
     = Inl (InvalidGoType (Basic Int32) ''example.M.f'')
   \<and> NewConverter (\<lambda>t fd. Inr (0 :: nat)) (\<lambda>t fd. Inr 1) (Basic Int32)
        (example_field BoolKind Optional (ValueOfBool False))
     = Inl (InvalidGoType (Basic Int32) ''example.M.f'')
   \<and> PBValueOf example_runtime (stringConverter (Basic String) (ValueOfString []))
        (Val (Basic Bool) (VBool True) None)
     = Inl (InvalidType (Basic Bool) (Basic String))"
  using fatal_on_mismatch
    [where fd = "example_field BoolKind Optional (ValueOfBool False)" and t = "Basic Int32"
       and newList = "\<lambda>t fd. Inr (0 :: nat)" and newMap = "\<lambda>t fd. Inr 1"
       and fd' = "example_field StringKind Optional (ValueOfString [])"
       and t' = "Basic String" and c = "stringConverter (Basic String) (ValueOfString [])"
       and tv = "Basic Bool" and p = "VBool True" and a = None and rt = example_runtime]
  by (simp add: factory_defs)

subsection \<open>The validity checks\<close>

text \<open>
  Claim C4 says that \<open>IsValidPB\<close> and \<open>IsValidGo\<close> return a boolean on every input. The
  message converter's \<open>IsValidPB\<close> does not: it calls \<^verbatim>\<open>v.Message()\<close> before any
  check, and that accessor panics on a value that does not hold a message. Here it is
  applied to \<^verbatim>\<open>protoreflect.ValueOfBool(true)\<close>.
\<close>

theorem message_IsValidPB_panics:
  "IsValidPB (messageConverter example_message) (ValueOfBool True)
     = Inl (TypeMismatch (ValueOfBool True) ''message'')"
  by (simp add: messageConverter_IsValidPB_def PB_Message_def bind_def)

text \<open>
  The other ten converters test the type with a comma-ok assertion, and \<open>IsValidGo\<close>
  guards \<^verbatim>\<open>v.Type()\<close> with \<^verbatim>\<open>v.IsValid()\<close>: these always return a boolean.
\<close>

lemma IsValidGo_total: "\<exists>b. IsValidGo c v = Inr b"
  by (cases v) (auto simp: IsValidGo_def bind_def)

lemma IsValidPB_total: "c \<noteq> messageConverter (goType c) \<Longrightarrow> \<exists>b. IsValidPB c v = Inr b"
  by (cases c) auto

lemma message_IsValidPB_wrong_tag:
  "PB_Message v = Inl e \<Longrightarrow> IsValidPB (messageConverter gt) v = Inl e"
  by (simp add: messageConverter_IsValidPB_def bind_def)

subsection \<open>Empty strings and nil byte slices\<close>

lemma zero_payload_byte_slice:
  "Type_Kind t = Slice \<Longrightarrow> Type_Elem t = Inr byteType \<Longrightarrow> zero_payload t = VBytes None"
  by (induction t) (auto simp: byteType_def split: if_splits)

text \<open>
  Claim C5. The bytes converter the factory builds for a native type of kind string
  turns the empty string into \<^verbatim>\<open>ValueOfBytes(nil)\<close>, the nil byte slice and not an
  allocated empty one. The string converter the factory builds for a byte-slice type
  turns the empty abstract string into the nil slice of that type.
\<close>

theorem empty_normalization:
  "(Kind fd = BytesKind \<and> Type_Kind t = String \<longrightarrow>
      (\<exists>c. newSingularConverter t fd = Inr c
          \<and> PBValueOf rt c (Val t (VString []) a) = Inr (ValueOfBytes None)))
   \<and> (Kind fd' = StringKind \<and> Type_Kind t' = Slice \<and> Type_Elem t' = Inr byteType \<longrightarrow>
      (\<exists>c. newSingularConverter t' fd' = Inr c
          \<and> GoValueOf rt h c (ValueOfString []) = Inr (Val t' (VBytes None) None)))"
  by (auto simp: factory_defs bytesConverter_PBValueOf_def stringConverter_GoValueOf_def
      bind_def Value_Len_def reflect_Zero_def zero_payload_byte_slice)

theorem empty_normalization_witness:
  "PBValueOf example_runtime (bytesConverter (Basic String) (ValueOfBytes (Some [])))
       (Val (Basic String) (VString []) None)
     = Inr (ValueOfBytes None)
   \<and> GoValueOf example_runtime []
       (stringConverter (Named ''Raw'' (SliceOf (Basic Uint8))) (ValueOfString []))
       (ValueOfString [])
     = Inr (Val (Named ''Raw'' (SliceOf (Basic Uint8))) (VBytes None) None)"
  using empty_normalization
    [where fd = "example_field BytesKind Optional (ValueOfBytes (Some []))"
       and t = "Basic String" and a = None and rt = example_runtime and h = "[]"
       and fd' = "example_field StringKind Optional (ValueOfString [])"
       and t' = "Named ''Raw'' (SliceOf (Basic Uint8))"]
  by (simp add: factory_defs byteType_def)

subsection \<open>Disjoint validity\<close>

text \<open>
  Claim C6. When two converters are of distinct scalar kinds, an abstract value that
  \<open>IsValidPB\<close> of the first accepts is rejected by \<open>IsValidPB\<close> of the second. In
  particular a value built by \<^verbatim>\<open>ValueOfInt64\<close> is rejected by an int32 converter.
\<close>

theorem validity_disjoint:
  "(scalar_kind_of c1 = Some k1 \<and> scalar_kind_of c2 = Some k2 \<and> k1 \<noteq> k2
      \<and> IsValidPB c1 v = Inr True \<longrightarrow> IsValidPB c2 v = Inr False)
   \<and> IsValidPB (int32Converter gt d) (ValueOfInt64 x) = Inr False"
  by (cases c1; cases c2; cases v) auto

theorem validity_disjoint_witness:
  "IsValidPB (int64Converter (Basic Int64) (ValueOfInt64 0)) (ValueOfInt64 9) = Inr True
   \<and> IsValidPB (int32Converter (Basic Int32) (ValueOfInt32 0)) (ValueOfInt64 9) = Inr False"
  using validity_disjoint
    [where ?c1.0 = "int64Converter (Basic Int64) (ValueOfInt64 0)" and ?k1.0 = SInt64
       and ?c2.0 = "int32Converter (Basic Int32) (ValueOfInt32 0)" and ?k2.0 = SInt32
       and v = "ValueOfInt64 9"]
  by simp

subsection \<open>Defaults\<close>

text \<open>
  Claim C7. Let the factory build a converter for a field that is not of kind message
  or group. If the field is not repeated, \<open>New\<close> and \<open>Zero\<close> both return the default
  declared by the field descriptor. If it is repeated, they return the zero value of
  the kind, except for an enum field, where they return the number of the first value
  the enum declares. \<open>New\<close> leaves the heap as it is.
\<close>

theorem default_correctness:
  assumes built: "newSingularConverter t fd = Inr c"
    and nomsg: "Kind fd \<noteq> MessageKind" "Kind fd \<noteq> GroupKind"
  shows "(Cardinality fd \<noteq> Repeated \<longrightarrow>
            New rt c h = Inr (Default fd, h) \<and> Zero rt c = Inr (Default fd))
       \<and> (Cardinality fd = Repeated \<and> Kind fd \<noteq> EnumKind \<longrightarrow>
            (\<exists>z. zero_of_kind (Kind fd) = Some z
                \<and> New rt c h = Inr (z, h) \<and> Zero rt c = Inr z))
       \<and> (Cardinality fd = Repeated \<and> Kind fd = EnumKind \<longrightarrow>
            (\<exists>n ns. EnumValues fd = n # ns
                \<and> New rt c h = Inr (ValueOfEnum n, h) \<and> Zero rt c = Inr (ValueOfEnum n)))"
  using assms
  by (cases "Kind fd") (auto simp: factory_defs split: if_splits list.splits)

text \<open>
  A singular \<^verbatim>\<open>int32\<close> field with declared default 5 gives 5 from both; a repeated
  \<^verbatim>\<open>int32\<close> field gives 0; a repeated enum field whose enum declares the numbers 1
  and 2 gives 1.
\<close>

theorem default_correctness_witness:
  "New example_runtime (int32Converter (Basic Int32) (ValueOfInt32 5)) []
     = Inr (ValueOfInt32 5, [])
   \<and> Zero example_runtime (int32Converter (Basic Int32) (ValueOfInt32 5))
     = Inr (ValueOfInt32 5)
   \<and> (\<exists>c. newSingularConverter (Basic Int32)
              (example_field Int32Kind Repeated (ValueOfInt32 5)) = Inr c
          \<and> Zero example_runtime c = Inr (ValueOfInt32 0))
   \<and> (\<exists>c. newSingularConverter (Named ''Color'' (Basic Int32))
              (example_field EnumKind Repeated (ValueOfEnum 2)) = Inr c
          \<and> New example_runtime c [] = Inr (ValueOfEnum 1, []))"
proof -
  have b1: "newSingularConverter (Basic Int32)
              (example_field Int32Kind Optional (ValueOfInt32 5))
            = Inr (int32Converter (Basic Int32) (ValueOfInt32 5))"
    by (simp add: factory_defs)
  have b2: "newSingularConverter (Basic Int32)
              (example_field Int32Kind Repeated (ValueOfInt32 5))
            = Inr (int32Converter (Basic Int32) (ValueOfInt32 0))"
    by (simp add: factory_defs int32Zero_def)
  have b3: "newSingularConverter (Named ''Color'' (Basic Int32))
              (example_field EnumKind Repeated (ValueOfEnum 2))
            = Inr (enumConverter (Named ''Color'' (Basic Int32)) (ValueOfEnum 1))"
    by (simp add: factory_defs)
  show ?thesis
    using default_correctness [OF b1, of example_runtime "[]"]
      default_correctness [OF b2, of example_runtime "[]"]
      default_correctness [OF b3, of example_runtime "[]"] b2 b3
    by (simp add: int32Zero_def)
qed

subsection \<open>\<open>GoValueOf\<close> of the scalar converters\<close>


text \<open>
  On an abstract value of another kind the accessor panics, which is the operation-time
  type mismatch of the specification (section 7).
\<close>

lemma int32_GoValueOf_wrong_kind:
  "GoValueOf rt h (int32Converter gt d) (ValueOfBool b)
     = Inl (TypeMismatch (ValueOfBool b) ''int'')"
  by (simp add: int32Converter_GoValueOf_def PB_Int_def bind_def)


subsection \<open>\<open>New\<close> and \<open>Zero\<close> of the message converter\<close>









subsection \<open>The trailing panic of \<open>NewConverter\<close>\<close>

text \<open>
  Claim C10. The \<^verbatim>\<open>switch\<close> of \<open>NewConverter\<close> never falls through to the
  \<^verbatim>\<open>panic\<close> statement after it: every input takes exactly one of the three
  branches, and \<open>NewConverter\<close> returns what the constructor of that branch returns,
  a panic raised inside the constructor included.
\<close>

theorem NewConverter_panic_unreachable:
  "NewConverter_switch newList newMap t fd \<noteq> FallThrough
   \<and> NewConverter newList newMap t fd =
       (if IsList fd then bind (newList t fd) (\<lambda>c. Inr (Collection c))
        else if IsMap fd then bind (newMap t fd) (\<lambda>c. Inr (Collection c))
        else bind (newSingularConverter t fd) (\<lambda>c. Inr (Singular c)))"
  by (simp add: NewConverter_def NewConverter_switch_def)

end
